theory Spec2Isabelle
  imports Main "HOL-Library.Word"
begin

section \<open>JavaScript values used by the frontend\<close>

text \<open>
  A JavaScript string is a sequence of UTF-16 code units, so the strings that come from
  the user or from the backend are lists of 16-bit words. String literals of the program
  text are plain ASCII and are written as HOL strings; \<open>js_lit\<close> turns one into a
  JavaScript string where the source mixes the two (\<^verbatim>\<open>lead.address || 'N/A'\<close>).
\<close>

type_synonym code_unit = "16 word"
type_synonym js_string = "code_unit list"

definition js_lit :: "string \<Rightarrow> js_string" where
  "js_lit s = map (\<lambda>c. of_nat (of_char c)) s"

text \<open>
  \<^verbatim>\<open>v || 'literal'\<close> for \<^verbatim>\<open>v : string | null\<close>: \<^verbatim>\<open>null\<close> and the empty
  string are falsy, every other string is truthy and is the value of the expression.
\<close>

definition or_literal :: "js_string option \<Rightarrow> string \<Rightarrow> js_string" where
  "or_literal v d = (case v of None \<Rightarrow> js_lit d | Some s \<Rightarrow> if s = [] then js_lit d else s)"

text \<open>
  \<^verbatim>\<open>String.prototype.trim\<close> removes the code units of the ECMAScript productions
  WhiteSpace and LineTerminator from both ends.
\<close>

definition is_white_space :: "code_unit \<Rightarrow> bool" where
  "is_white_space c \<longleftrightarrow>
     c \<in> {0x0009, 0x000A, 0x000B, 0x000C, 0x000D, 0x0020, 0x00A0, 0x1680,
          0x2000, 0x2001, 0x2002, 0x2003, 0x2004, 0x2005, 0x2006, 0x2007,
          0x2008, 0x2009, 0x200A, 0x2028, 0x2029, 0x202F, 0x205F, 0x3000, 0xFEFF}"

definition trim :: "js_string \<Rightarrow> js_string" where
  "trim s = rev (dropWhile is_white_space (rev (dropWhile is_white_space s)))"

section \<open>The API types (frontend/utils/api.ts)\<close>

text \<open>
  \<^verbatim>\<open>interface Lead\<close>: \<^verbatim>\<open>number\<close> fields hold the integers of the backend,
  \<^verbatim>\<open>string | null\<close> is an option. The field \<^verbatim>\<open>id\<close> is \<open>id_lead\<close> here, since
  \<open>id\<close> is the identity function of HOL.
\<close>

record Lead =
  id_lead :: int
  name :: js_string
  category :: "js_string option"
  address :: "js_string option"
  phone :: "js_string option"
  website :: "js_string option"
  has_website :: bool
  source :: js_string
  query :: js_string
  created_at :: js_string

record ScrapeResponse =
  success :: bool
  leads_added :: int
  high_priority :: int

section \<open>The leads table (components/LeadsTable, in frontend/pages/index.tsx)\<close>

text \<open>
  What the component returns, reduced to the content that depends on its props: the
  spinner, the empty message, or one row per lead in the order of the array.
\<close>

datatype website_cell = Visit_Site js_string | No_website

record table_row =
  row_key :: int
  business_cell :: js_string
  address_cell :: js_string
  category_cell :: js_string
  contact_cell :: js_string
  site_cell :: website_cell
  priority_cell :: string

datatype leads_table = Loading_Spinner | No_leads_found | Table_Rows "table_row list"

definition render_row :: "Lead \<Rightarrow> table_row" where
  "render_row lead =
     \<lparr>row_key = id_lead lead,
      business_cell = name lead,
      address_cell = or_literal (address lead) ''N/A'',
      category_cell = or_literal (category lead) ''Unknown'',
      contact_cell = or_literal (phone lead) ''No phone listed'',
      site_cell = (case website lead of
                     None \<Rightarrow> No_website
                   | Some href \<Rightarrow> if href = [] then No_website else Visit_Site href),
      priority_cell = (if \<not> has_website lead then ''High'' else ''Low'')\<rparr>"

definition LeadsTable :: "Lead list \<Rightarrow> bool \<Rightarrow> leads_table" where
  "LeadsTable leads loading =
     (if loading then Loading_Spinner
      else if length leads = 0 then No_leads_found
      else Table_Rows (map render_row leads))"

section \<open>The API functions (frontend/utils/api.ts)\<close>

text \<open>
  The axios instance is outside the repository: its methods \<^verbatim>\<open>api.post\<close> and
  \<^verbatim>\<open>api.get\<close> are parameters of the model. Each takes the path and the payload and
  either resolves with a response or rejects with an error. The arguments they are
  called with are recorded as effects, next to the other observable calls of the
  frontend, so that a property can speak about the requests that were issued.
\<close>

datatype error = Network_Error | Status_Error nat | TypeError string | Exception string

datatype json = JString js_string | JBool bool | JObject "(string \<times> json) list"

record 'a response =
  data :: 'a
  status :: nat

datatype effect =
    Post string json
  | Get string "(string \<times> json) list"
  | Console_error string error
  | PreventDefault
  | Alert string
  | SetIsLoading bool
  | SetQuery js_string
  | OnSuccess ScrapeResponse
  | OnError error

fun is_request :: "effect \<Rightarrow> bool" where
  "is_request (Post _ _) = True"
| "is_request (Get _ _) = True"
| "is_request _ = False"

text \<open>
  An \<^verbatim>\<open>async\<close> function that has run to its end: the effects it performed, in order,
  and the value its promise resolves with (\<open>Inr\<close>) or the error it rejects with
  (\<open>Inl\<close>).
\<close>

definition scrapeLeads ::
  "(string \<Rightarrow> json \<Rightarrow> error + ScrapeResponse response) \<Rightarrow> js_string \<Rightarrow>
     effect list \<times> (error + ScrapeResponse)" where
  "scrapeLeads post q =
     (case post ''/scrape-leads'' (JObject [(''query'', JString q)]) of
        Inr resp \<Rightarrow>
          ([Post ''/scrape-leads'' (JObject [(''query'', JString q)])], Inr (data resp))
      | Inl err \<Rightarrow>
          ([Post ''/scrape-leads'' (JObject [(''query'', JString q)]),
            Console_error ''Error scraping leads:'' err], Inl err))"

text \<open>
  \<^verbatim>\<open>getLeads(highPriorityOnly = false)\<close>: the argument is an option, \<open>None\<close> for a
  call that leaves it out, and the default of the parameter list is applied first.
\<close>

definition getLeads ::
  "(string \<Rightarrow> (string \<times> json) list \<Rightarrow> error + Lead list response) \<Rightarrow> bool option \<Rightarrow>
     effect list \<times> (error + Lead list)" where
  "getLeads get arg =
     (let highPriorityOnly = (case arg of None \<Rightarrow> False | Some b \<Rightarrow> b)
      in case get ''/leads'' [(''high_priority_only'', JBool highPriorityOnly)] of
           Inr resp \<Rightarrow>
             ([Get ''/leads'' [(''high_priority_only'', JBool highPriorityOnly)]],
              Inr (data resp))
         | Inl err \<Rightarrow>
             ([Get ''/leads'' [(''high_priority_only'', JBool highPriorityOnly)],
               Console_error ''Error fetching leads:'' err], Inl err))"

section \<open>The stats summary (components/StatsSummary, in unnamed/part_000)\<close>

text \<open>
  The counters of a response are integers, but \<^verbatim>\<open>/\<close>, \<^verbatim>\<open>*\<close> and
  \<^verbatim>\<open>Math.round\<close> work on IEEE doubles. The model does not evaluate them: the text of
  the third card is either a literal or the template \<^verbatim>\<open>`${e}%`\<close> over the arithmetic
  expression \<open>e\<close> that the component hands to the JavaScript engine. Which operations are
  performed, and on which operands, is then a property of that expression.
\<close>

datatype js_expr =
    Num int
  | Divide js_expr js_expr
  | Times js_expr js_expr
  | Math_round js_expr

datatype card_text = Literal string | Percent_of js_expr

fun divisions :: "js_expr \<Rightarrow> (js_expr \<times> js_expr) list" where
  "divisions (Num n) = []"
| "divisions (Divide a b) = divisions a @ divisions b @ [(a, b)]"
| "divisions (Times a b) = divisions a @ divisions b"
| "divisions (Math_round a) = divisions a"

fun divisions_of :: "card_text \<Rightarrow> (js_expr \<times> js_expr) list" where
  "divisions_of (Literal s) = []"
| "divisions_of (Percent_of e) = divisions e"

text \<open>A \<^verbatim>\<open>number\<close> in a condition: zero is falsy, every other integer is truthy.\<close>

definition truthy_number :: "int \<Rightarrow> bool" where
  "truthy_number n \<longleftrightarrow> n \<noteq> 0"

record stats_cards =
  total_card :: int
  high_priority_card :: int
  conversion_card :: card_text

text \<open>
  Reading a property of \<^verbatim>\<open>null\<close> throws a TypeError. The prop \<^verbatim>\<open>stats\<close> is a
  response or \<^verbatim>\<open>null\<close>, so every \<^verbatim>\<open>stats.field\<close> of the component is a read
  that can fail, and the component as a whole returns an element, returns
  \<^verbatim>\<open>null\<close> (\<open>Inr None\<close>) or throws (\<open>Inl\<close>).
\<close>

definition read_field :: "'a option \<Rightarrow> ('a \<Rightarrow> 'b) \<Rightarrow> error + 'b" where
  "read_field obj field =
     (case obj of
        None \<Rightarrow> Inl (TypeError ''Cannot read properties of null'')
      | Some v \<Rightarrow> Inr (field v))"

definition StatsSummary :: "ScrapeResponse option \<Rightarrow> error + stats_cards option" where
  "StatsSummary stats =
     (if stats = None then Inr None
      else
        (case read_field stats leads_added of
           Inl err \<Rightarrow> Inl err
         | Inr added \<Rightarrow>
             (case read_field stats high_priority of
                Inl err \<Rightarrow> Inl err
              | Inr high \<Rightarrow>
                  Inr (Some \<lparr>total_card = added,
                             high_priority_card = high,
                             conversion_card =
                               (if truthy_number added
                                then Percent_of (Math_round
                                       (Times (Divide (Num high) (Num added)) (Num 100)))
                                else Literal ''0%'')\<rparr>))))"

section \<open>The scrape form (frontend/components/ScrapeForm.tsx)\<close>

text \<open>
  The two \<^verbatim>\<open>useState\<close> cells of the component. The field \<open>query\<close> of the form is
  a different constant from the field of the same name of a lead, which is written
  \<open>Lead.query\<close> from here on.
\<close>

record form_state =
  query :: js_string
  isLoading :: bool


text \<open>
  The callbacks of the props are functions of the parent: they return (\<open>None\<close>) or
  throw (\<open>Some\<close> of what they throw). The handler itself completes normally or with an
  error that escaped it.
\<close>

datatype completion = Returned | Threw error

text \<open>
  \<^verbatim>\<open>handleSubmit\<close> up to its \<^verbatim>\<open>await\<close>: this part runs synchronously inside the
  submit event. The third component is the query handed to \<^verbatim>\<open>scrapeLeads\<close>, or
  \<open>None\<close> when the handler has returned at the validation.
\<close>

definition handleSubmit_begin :: "form_state \<Rightarrow> form_state \<times> effect list \<times> js_string option" where
  "handleSubmit_begin st =
     (if trim (query st) = []
      then (st, [PreventDefault, Alert ''Please enter a search query''], None)
      else (st\<lparr>isLoading := True\<rparr>, [PreventDefault, SetIsLoading True], Some (query st)))"

text \<open>The \<^verbatim>\<open>catch\<close> block and the \<^verbatim>\<open>finally\<close> block.\<close>

definition catch_block ::
  "(error \<Rightarrow> error option) \<Rightarrow> form_state \<times> effect list \<Rightarrow> error \<Rightarrow>
     form_state \<times> effect list \<times> completion" where
  "catch_block onError so_far err =
     (case onError err of
        None \<Rightarrow> (fst so_far, snd so_far @ [OnError err], Returned)
      | Some thrown \<Rightarrow> (fst so_far, snd so_far @ [OnError err], Threw thrown))"

definition finally_block ::
  "form_state \<times> effect list \<times> completion \<Rightarrow> form_state \<times> effect list \<times> completion" where
  "finally_block so_far =
     (case so_far of (st, effs, c) \<Rightarrow> (st\<lparr>isLoading := False\<rparr>, effs @ [SetIsLoading False], c))"

text \<open>
  \<^verbatim>\<open>handleSubmit\<close> from the point where the promise of \<^verbatim>\<open>scrapeLeads\<close> has
  settled with \<open>outcome\<close>.
\<close>

definition handleSubmit_resume ::
  "(ScrapeResponse \<Rightarrow> error option) \<Rightarrow> (error \<Rightarrow> error option) \<Rightarrow> form_state \<Rightarrow>
     error + ScrapeResponse \<Rightarrow> form_state \<times> effect list \<times> completion" where
  "handleSubmit_resume onSuccess onError st outcome =
     finally_block
       (case outcome of
          Inr resp \<Rightarrow>
            (case onSuccess resp of
               None \<Rightarrow> (st\<lparr>query := []\<rparr>, [SetQuery [], OnSuccess resp], Returned)
             | Some thrown \<Rightarrow>
                 catch_block onError (st\<lparr>query := []\<rparr>, [SetQuery [], OnSuccess resp]) thrown)
        | Inl err \<Rightarrow> catch_block onError (st, []) err)"

text \<open>The whole handler, for a request that settles before anything else happens.\<close>

definition handleSubmit ::
  "(string \<Rightarrow> json \<Rightarrow> error + ScrapeResponse response) \<Rightarrow>
   (ScrapeResponse \<Rightarrow> error option) \<Rightarrow> (error \<Rightarrow> error option) \<Rightarrow> form_state \<Rightarrow>
     form_state \<times> effect list \<times> completion" where
  "handleSubmit post onSuccess onError st =
     (case handleSubmit_begin st of
        (st1, effs1, None) \<Rightarrow> (st1, effs1, Returned)
      | (st1, effs1, Some q) \<Rightarrow>
          (case scrapeLeads post q of
             (api_effs, outcome) \<Rightarrow>
               (case handleSubmit_resume onSuccess onError st1 outcome of
                  (st2, effs2, c) \<Rightarrow> (st2, effs1 @ api_effs @ effs2, c))))"









section \<open>Sample data\<close>

text \<open>Two leads of one scrape, the first without a website, the second with one.\<close>

definition sample_leads :: "Lead list" where
  "sample_leads =
     [\<lparr>id_lead = 1, name = js_lit ''Ace Plumbing'', category = Some (js_lit ''Plumber''),
       address = None, phone = None, website = None, has_website = False,
       source = js_lit ''google_maps'', Lead.query = js_lit ''plumbers in Manchester'',
       created_at = js_lit ''2024-01-01''\<rparr>,
      \<lparr>id_lead = 2, name = js_lit ''Best Pipes'', category = None,
       address = Some (js_lit ''1 High St''), phone = Some [],
       website = Some (js_lit ''https://bestpipes.example''), has_website = True,
       source = js_lit ''google_maps'', Lead.query = js_lit ''plumbers in Manchester'',
       created_at = js_lit ''2024-01-01''\<rparr>]"

section \<open>Properties of the API types and functions\<close>

text \<open>
  C6. The record of a lead has exactly the fields of the interface, with their types:
  for any integer id, any strings for name, source, query and created_at, any boolean
  for has_website and any optional strings (absent or present) for category, address,
  phone and website there is a lead with these fields, and a lead is determined by
  these ten fields. The name is a string, never absent.
\<close>

theorem Lead_shape:
  "(\<exists>l :: Lead.
      id_lead l = (i :: int) \<and> name l = (n :: js_string) \<and>
      category l = (c :: js_string option) \<and> address l = (a :: js_string option) \<and>
      phone l = (p :: js_string option) \<and> website l = (w :: js_string option) \<and>
      has_website l = (h :: bool) \<and> source l = (s :: js_string) \<and>
      Lead.query l = (q :: js_string) \<and> created_at l = (t :: js_string)) \<and>
   (\<forall>l l' :: Lead.
      l = l' \<longleftrightarrow>
        id_lead l = id_lead l' \<and> name l = name l' \<and> category l = category l' \<and>
        address l = address l' \<and> phone l = phone l' \<and> website l = website l' \<and>
        has_website l = has_website l' \<and> source l = source l' \<and>
        Lead.query l = Lead.query l' \<and> created_at l = created_at l')"
proof
  let ?l = "\<lparr>id_lead = i, name = n, category = c, address = a, phone = p, website = w,
             has_website = h, source = s, Lead.query = q, created_at = t\<rparr>"
  show "\<exists>l :: Lead.
      id_lead l = i \<and> name l = n \<and> category l = c \<and> address l = a \<and>
      phone l = p \<and> website l = w \<and> has_website l = h \<and> source l = s \<and>
      Lead.query l = q \<and> created_at l = t"
    by (rule exI [of _ ?l]) simp
next
  show "\<forall>l l' :: Lead.
      l = l' \<longleftrightarrow>
        id_lead l = id_lead l' \<and> name l = name l' \<and> category l = category l' \<and>
        address l = address l' \<and> phone l = phone l' \<and> website l = website l' \<and>
        has_website l = has_website l' \<and> source l = source l' \<and>
        Lead.query l = Lead.query l' \<and> created_at l = created_at l'"
    by auto
qed

theorem Lead_shape_witness:
  "\<exists>l :: Lead.
      id_lead l = 7 \<and> name l = js_lit ''Ace'' \<and> category l = None \<and> address l = None \<and>
      phone l = None \<and> website l = None \<and> has_website l = False \<and>
      source l = js_lit ''google_maps'' \<and> Lead.query l = js_lit ''plumbers'' \<and>
      created_at l = js_lit ''2024-01-01''"
  using Lead_shape [of 7 "js_lit ''Ace''" None None None None False "js_lit ''google_maps''"
      "js_lit ''plumbers''" "js_lit ''2024-01-01''"]
  by blast

text \<open>
  C4. For every query, scrapeLeads issues exactly one request, a POST to the path
  /scrape-leads whose body is the object with the single key query holding the query;
  when the request resolves, the function resolves with the data of the response, a
  record of success, leads_added and high_priority.
\<close>

theorem scrapeLeads_request_and_result:
  "filter is_request (fst (scrapeLeads post q)) =
     [Post ''/scrape-leads'' (JObject [(''query'', JString q)])] \<and>
   (\<forall>resp. post ''/scrape-leads'' (JObject [(''query'', JString q)]) = Inr resp \<longrightarrow>
      scrapeLeads post q =
        ([Post ''/scrape-leads'' (JObject [(''query'', JString q)])], Inr (data resp)) \<and>
      data resp = \<lparr>success = success (data resp), leads_added = leads_added (data resp),
                   high_priority = high_priority (data resp)\<rparr>)"
  by (simp add: scrapeLeads_def split: sum.split)

theorem scrapeLeads_request_and_result_witness:
  "scrapeLeads
     (\<lambda>path body. Inr \<lparr>data = \<lparr>success = True, leads_added = 3, high_priority = 2\<rparr>,
                        status = 200\<rparr>)
     (js_lit ''plumbers in Manchester'') =
   ([Post ''/scrape-leads'' (JObject [(''query'', JString (js_lit ''plumbers in Manchester''))])],
    Inr \<lparr>success = True, leads_added = 3, high_priority = 2\<rparr>)"
  using scrapeLeads_request_and_result
    [of "\<lambda>path body. Inr \<lparr>data = \<lparr>success = True, leads_added = 3, high_priority = 2\<rparr>,
                             status = 200\<rparr>"
        "js_lit ''plumbers in Manchester''"]
  by simp

text \<open>
  C5. For every boolean b, getLeads issues exactly one request, a GET to the path
  /leads with the parameter high_priority_only equal to b; a call without the argument
  behaves as the call with false; when the request resolves, the function resolves with
  the list of leads of the response, unchanged.
\<close>

theorem getLeads_request_and_result:
  "filter is_request (fst (getLeads get (Some b))) =
     [Get ''/leads'' [(''high_priority_only'', JBool b)]] \<and>
   getLeads get None = getLeads get (Some False) \<and>
   (\<forall>resp. get ''/leads'' [(''high_priority_only'', JBool b)] = Inr resp \<longrightarrow>
      getLeads get (Some b) =
        ([Get ''/leads'' [(''high_priority_only'', JBool b)]], Inr (data resp)))"
  by (simp add: getLeads_def split: sum.split)

theorem getLeads_request_and_result_witness:
  "getLeads (\<lambda>path ps. Inr \<lparr>data = sample_leads, status = 200\<rparr>) (Some True) =
     ([Get ''/leads'' [(''high_priority_only'', JBool True)]], Inr sample_leads) \<and>
   getLeads (\<lambda>path ps. Inr \<lparr>data = sample_leads, status = 200\<rparr>) None =
     ([Get ''/leads'' [(''high_priority_only'', JBool False)]], Inr sample_leads)"
  using getLeads_request_and_result
    [of "\<lambda>path ps. Inr \<lparr>data = sample_leads, status = 200\<rparr>" True]
    getLeads_request_and_result
    [of "\<lambda>path ps. Inr \<lparr>data = sample_leads, status = 200\<rparr>" False]
  by simp

text \<open>
  C7. When the request of scrapeLeads or of getLeads is rejected with an error, the
  function rejects with that same error, and so does not resolve with any value: a
  failed scrape is never a successful result.
\<close>

theorem api_failure_rethrown:
  "(post ''/scrape-leads'' (JObject [(''query'', JString q)]) = Inl e \<longrightarrow>
      snd (scrapeLeads post q) = Inl e \<and> (\<forall>r. snd (scrapeLeads post q) \<noteq> Inr r)) \<and>
   (get ''/leads''
        [(''high_priority_only'', JBool (case arg of None \<Rightarrow> False | Some b \<Rightarrow> b))] = Inl e' \<longrightarrow>
      snd (getLeads get arg) = Inl e' \<and> (\<forall>ls. snd (getLeads get arg) \<noteq> Inr ls))"
  by (simp add: scrapeLeads_def getLeads_def)

theorem api_failure_rethrown_witness:
  "snd (scrapeLeads (\<lambda>path body. Inl (Status_Error 500)) (js_lit ''plumbers'')) =
     Inl (Status_Error 500) \<and>
   snd (getLeads (\<lambda>path ps. Inl Network_Error) None) = Inl Network_Error"
  using api_failure_rethrown
    [of "\<lambda>path body. Inl (Status_Error 500)" "js_lit ''plumbers''" "Status_Error 500"
        "\<lambda>path ps. Inl Network_Error" None Network_Error]
  by simp

section \<open>Properties of the leads table\<close>

text \<open>
  C1. Whenever the leads table renders rows, there is one row per lead, and the priority
  label of a lead's row is High exactly when the lead's \<open>has_website\<close> is false and Low
  exactly when it is true.
\<close>

theorem LeadsTable_priority_label:
  assumes "LeadsTable leads loading = Table_Rows rows"
  shows "length rows = length leads \<and>
         (\<forall>i < length leads.
            (priority_cell (rows ! i) = ''High'' \<longleftrightarrow> \<not> has_website (leads ! i)) \<and>
            (priority_cell (rows ! i) = ''Low'' \<longleftrightarrow> has_website (leads ! i)))"
proof -
  from assms have rows: "rows = map render_row leads"
    by (simp add: LeadsTable_def split: if_splits)
  show ?thesis
    unfolding rows by (simp add: render_row_def)
qed

theorem LeadsTable_priority_label_witness:
  "LeadsTable sample_leads False = Table_Rows (map render_row sample_leads) \<and>
   length (map render_row sample_leads) = length sample_leads \<and>
   priority_cell (map render_row sample_leads ! 0) = ''High'' \<and>
   \<not> has_website (sample_leads ! 0) \<and>
   priority_cell (map render_row sample_leads ! 1) = ''Low'' \<and>
   has_website (sample_leads ! 1)"
proof -
  have shown: "LeadsTable sample_leads False = Table_Rows (map render_row sample_leads)"
    by (simp add: LeadsTable_def sample_leads_def)
  from LeadsTable_priority_label [OF shown]
  have each: "\<forall>i < length sample_leads.
      (priority_cell (map render_row sample_leads ! i) = ''High'' \<longleftrightarrow>
         \<not> has_website (sample_leads ! i)) \<and>
      (priority_cell (map render_row sample_leads ! i) = ''Low'' \<longleftrightarrow>
         has_website (sample_leads ! i))"
    and same: "length (map render_row sample_leads) = length sample_leads"
    by blast+
  have two: "length sample_leads = 2" "\<not> has_website (sample_leads ! 0)"
    "has_website (sample_leads ! 1)"
    by (simp_all add: sample_leads_def)
  from each two have "priority_cell (map render_row sample_leads ! 0) = ''High''"
    "priority_cell (map render_row sample_leads ! 1) = ''Low''"
    by simp_all
  with shown same two show ?thesis by blast
qed

section \<open>Properties of the stats summary\<close>

text \<open>
  C10. For the null prop the stats summary returns null; it never throws, whatever the
  prop is, and for a response it returns an element: the property reads are reached
  only behind the null check.
\<close>

theorem StatsSummary_null:
  "StatsSummary None = Inr None \<and>
   (\<forall>stats. \<exists>r. StatsSummary stats = Inr r) \<and>
   (\<forall>s. \<exists>cards. StatsSummary (Some s) = Inr (Some cards))"
  by (simp add: StatsSummary_def read_field_def split: option.split)

theorem StatsSummary_null_witness:
  "StatsSummary None = Inr None \<and>
   StatsSummary (Some \<lparr>success = True, leads_added = 3, high_priority = 2\<rparr>) \<noteq> Inr None"
  using StatsSummary_null by (auto simp add: StatsSummary_def read_field_def)

text \<open>
  C2. For every response whose leads_added is a count (not negative), the conversion
  card is the rounded quotient of high_priority by leads_added times 100, followed by
  the percent sign, only when leads_added is greater than zero, and that quotient is
  then the one division performed; when leads_added is zero no division is performed
  and the card shows the literal 0%.
\<close>

theorem StatsSummary_conversion:
  assumes "0 \<le> leads_added s"
  shows "\<exists>cards. StatsSummary (Some s) = Inr (Some cards) \<and>
           conversion_card cards =
             (if 0 < leads_added s
              then Percent_of (Math_round
                     (Times (Divide (Num (high_priority s)) (Num (leads_added s))) (Num 100)))
              else Literal ''0%'') \<and>
           divisions_of (conversion_card cards) =
             (if 0 < leads_added s then [(Num (high_priority s), Num (leads_added s))] else []) \<and>
           (leads_added s = 0 \<longrightarrow>
              conversion_card cards = Literal ''0%'' \<and> divisions_of (conversion_card cards) = [])"
  using assms by (auto simp add: StatsSummary_def read_field_def truthy_number_def)

theorem StatsSummary_conversion_witness:
  "StatsSummary (Some \<lparr>success = True, leads_added = 3, high_priority = 2\<rparr>) =
     Inr (Some \<lparr>total_card = 3, high_priority_card = 2,
                conversion_card =
                  Percent_of (Math_round (Times (Divide (Num 2) (Num 3)) (Num 100)))\<rparr>) \<and>
   StatsSummary (Some \<lparr>success = True, leads_added = 0, high_priority = 0\<rparr>) =
     Inr (Some \<lparr>total_card = 0, high_priority_card = 0, conversion_card = Literal ''0%''\<rparr>)"
proof -
  have some: "0 \<le> leads_added \<lparr>success = True, leads_added = 3, high_priority = 2\<rparr>"
    and none: "0 \<le> leads_added \<lparr>success = True, leads_added = 0, high_priority = 0\<rparr>"
    by simp_all
  from StatsSummary_conversion [OF some] StatsSummary_conversion [OF none]
  show ?thesis
    by (auto simp add: StatsSummary_def read_field_def)
qed

section \<open>Properties of the scrape form\<close>

lemma trim_empty_iff: "trim s = [] \<longleftrightarrow> (\<forall>c\<in>set s. is_white_space c)"
proof
  assume "trim s = []"
  then have inner: "\<forall>c\<in>set (dropWhile is_white_space s). is_white_space c"
    by (simp add: trim_def dropWhile_eq_Nil_conv)
  have "dropWhile is_white_space s = []"
  proof (rule ccontr)
    assume ne: "dropWhile is_white_space s \<noteq> []"
    then have "\<not> is_white_space (hd (dropWhile is_white_space s))"
      by (rule hd_dropWhile)
    moreover from ne have "hd (dropWhile is_white_space s) \<in> set (dropWhile is_white_space s)"
      by simp
    ultimately show False using inner by blast
  qed
  then show "\<forall>c\<in>set s. is_white_space c"
    by (simp add: dropWhile_eq_Nil_conv)
next
  assume "\<forall>c\<in>set s. is_white_space c"
  then have blank: "dropWhile is_white_space s = []"
    by (simp add: dropWhile_eq_Nil_conv)
  show "trim s = []"
    unfolding trim_def blank by simp
qed

text \<open>
  C3. When the query is empty or consists of white space only, submitting the form
  leaves the state as it was, shows the alert and returns without any request; and in
  general the handler issues a request, the one POST of scrapeLeads with the query,
  exactly when the query has a code unit that is not white space.
\<close>

theorem handleSubmit_blank_query:
  "((\<forall>c\<in>set (query st). is_white_space c) \<longrightarrow>
      handleSubmit post onSuccess onError st =
        (st, [PreventDefault, Alert ''Please enter a search query''], Returned)) \<and>
   filter is_request (fst (snd (handleSubmit post onSuccess onError st))) =
     (if \<exists>c\<in>set (query st). \<not> is_white_space c
      then [Post ''/scrape-leads'' (JObject [(''query'', JString (query st))])]
      else [])"
  by (auto simp add: handleSubmit_def handleSubmit_begin_def trim_empty_iff scrapeLeads_def
      handleSubmit_resume_def finally_block_def catch_block_def
      split: sum.split option.split prod.split)

theorem handleSubmit_blank_query_witness:
  "is_white_space 0x20 \<and> is_white_space 0x09 \<and>
   handleSubmit (\<lambda>path body. Inl Network_Error) (\<lambda>r. None) (\<lambda>e. None)
       \<lparr>query = [0x20, 0x09], isLoading = False\<rparr> =
     (\<lparr>query = [0x20, 0x09], isLoading = False\<rparr>,
      [PreventDefault, Alert ''Please enter a search query''], Returned) \<and>
   \<not> is_white_space 0x70 \<and>
   filter is_request
     (fst (snd (handleSubmit (\<lambda>path body. Inl Network_Error) (\<lambda>r. None) (\<lambda>e. None)
                  \<lparr>query = [0x20, 0x70], isLoading = False\<rparr>))) =
     [Post ''/scrape-leads'' (JObject [(''query'', JString [0x20, 0x70])])]"
  using handleSubmit_blank_query
    [of "\<lparr>query = [0x20, 0x09], isLoading = False\<rparr>" "\<lambda>path body. Inl Network_Error"
        "\<lambda>r. None" "\<lambda>e. None"]
    handleSubmit_blank_query
    [of "\<lparr>query = [0x20, 0x70], isLoading = False\<rparr>" "\<lambda>path body. Inl Network_Error"
        "\<lambda>r. None" "\<lambda>e. None"]
  by (simp add: is_white_space_def)

text \<open>
  C9. For a query that passes the validation: when the request fails with an error,
  the query of the form is unchanged, the loading flag is false at the end, and the
  handler has called onError with that error and neither setQuery nor onSuccess; when
  the request succeeds, the query is reset to the empty string, onSuccess is called with
  the data of the response, and the last thing the handler does is to reset the loading
  flag to false.
\<close>

theorem handleSubmit_after_request:
  assumes "trim (query st) \<noteq> []"
  shows "(\<forall>e. post ''/scrape-leads'' (JObject [(''query'', JString (query st))]) = Inl e \<longrightarrow>
            query (fst (handleSubmit post onSuccess onError st)) = query st \<and>
            \<not> isLoading (fst (handleSubmit post onSuccess onError st)) \<and>
            fst (snd (handleSubmit post onSuccess onError st)) =
              [PreventDefault, SetIsLoading True,
               Post ''/scrape-leads'' (JObject [(''query'', JString (query st))]),
               Console_error ''Error scraping leads:'' e, OnError e, SetIsLoading False]) \<and>
         (\<forall>resp. post ''/scrape-leads'' (JObject [(''query'', JString (query st))]) = Inr resp \<longrightarrow>
            query (fst (handleSubmit post onSuccess onError st)) = [] \<and>
            \<not> isLoading (fst (handleSubmit post onSuccess onError st)) \<and>
            take 5 (fst (snd (handleSubmit post onSuccess onError st))) =
              [PreventDefault, SetIsLoading True,
               Post ''/scrape-leads'' (JObject [(''query'', JString (query st))]),
               SetQuery [], OnSuccess (data resp)] \<and>
            last (fst (snd (handleSubmit post onSuccess onError st))) = SetIsLoading False)"
  using assms
  by (auto simp add: handleSubmit_def handleSubmit_begin_def scrapeLeads_def
      handleSubmit_resume_def finally_block_def catch_block_def
      split: sum.split option.split prod.split)

theorem handleSubmit_after_request_witness:
  "trim [0x70] \<noteq> [] \<and>
   handleSubmit (\<lambda>path body. Inl Network_Error) (\<lambda>r. None) (\<lambda>e. None)
       \<lparr>query = [0x70], isLoading = False\<rparr> =
     (\<lparr>query = [0x70], isLoading = False\<rparr>,
      [PreventDefault, SetIsLoading True,
       Post ''/scrape-leads'' (JObject [(''query'', JString [0x70])]),
       Console_error ''Error scraping leads:'' Network_Error, OnError Network_Error,
       SetIsLoading False],
      Returned) \<and>
   fst (handleSubmit
          (\<lambda>path body. Inr \<lparr>data = \<lparr>success = True, leads_added = 3, high_priority = 2\<rparr>,
                             status = 200\<rparr>)
          (\<lambda>r. None) (\<lambda>e. None) \<lparr>query = [0x70], isLoading = False\<rparr>) =
     \<lparr>query = [], isLoading = False\<rparr>"
proof -
  have submitted: "trim (query \<lparr>query = [0x70], isLoading = False\<rparr>) \<noteq> []"
    by (simp add: trim_def is_white_space_def)
  from handleSubmit_after_request [OF submitted, of "\<lambda>path body. Inl Network_Error"
      "\<lambda>r. None" "\<lambda>e. None"]
    handleSubmit_after_request [OF submitted,
      of "\<lambda>path body. Inr \<lparr>data = \<lparr>success = True, leads_added = 3, high_priority = 2\<rparr>,
                             status = 200\<rparr>" "\<lambda>r. None" "\<lambda>e. None"]
  show ?thesis
    using submitted
    by (simp add: handleSubmit_def handleSubmit_begin_def scrapeLeads_def
        handleSubmit_resume_def finally_block_def catch_block_def)
qed


lemma resume_state:
  "handleSubmit_resume onSuccess onError st outcome = (st', effs, c) \<Longrightarrow> \<not> isLoading st'"
  by (auto simp add: handleSubmit_resume_def finally_block_def catch_block_def
      split: sum.splits option.splits)









end
